theory Spec2Isabelle
  imports Complex_Main "HOL-Library.Sublist"
begin

section \<open>Data model of the interaction dispatch (src/index.js)\<close>

text \<open>
  Times are the integer milliseconds of \<^verbatim>\<open>Date.now()\<close>; a command's cooldown is given
  in seconds. A thrown or rejected value is a \<open>fault\<close>: its template-string rendering
  \<^verbatim>\<open>`${error}`\<close>, its \<^verbatim>\<open>message\<close> and its \<^verbatim>\<open>stack\<close>.
\<close>

type_synonym millis = int

record fault =
  rendering :: string
  message :: string
  stack :: string

text \<open>
  How an awaited external handler settles: \<open>thrown = None\<close> when it resolves, and the
  \<^verbatim>\<open>replied\<close> / \<^verbatim>\<open>deferred\<close> flags of the interaction at that moment.
\<close>

record settle =
  thrown :: "fault option"
  repliedAfter :: bool
  deferredAfter :: bool

text \<open>
  A command of \<^verbatim>\<open>client.commands\<close>: \<^verbatim>\<open>command.data.name\<close>, the optional
  \<^verbatim>\<open>command.cooldown\<close> in whole seconds (\<open>None\<close> is \<^verbatim>\<open>undefined\<close>) and the
  behaviour of \<^verbatim>\<open>command.execute(interaction, client)\<close>, which gets no access to the
  cooldown registry here.
\<close>

record command =
  data_name :: string
  cooldown :: "int option"
  execute :: settle

datatype interactionType = ChatInputCommand | Button | OtherInteraction

record interaction =
  itype :: interactionType
  commandName :: string
  customId :: string
  user_id :: string
  user_tag :: string

text \<open>
  The external calls a dispatch can make besides \<^verbatim>\<open>command.execute\<close>:
  \<^verbatim>\<open>interaction.reply\<close> and \<^verbatim>\<open>interaction.followUp\<close> (\<open>None\<close>: the promise
  resolves, \<open>Some e\<close>: it rejects with \<open>e\<close>) and \<^verbatim>\<open>handleTicketButton\<close> of tickets.js.
\<close>

record world =
  reply_outcome :: "fault option"
  followUp_outcome :: "fault option"
  handleTicketButton :: settle

text \<open>
  The callbacks handed to \<^verbatim>\<open>setTimeout\<close> (lines 133, 51-54 and 78-81), the two
  messages sent to a caller (the remaining time of the first is the number handed to
  \<^verbatim>\<open>toFixed(1)\<close>, in seconds, as the exact quotient of the milliseconds by 1000; its
  rendering to one decimal is not modelled), and the observable effects in the order the
  code performs them.
\<close>

datatype callback = ForgetTimestamp string string | CrashExit | ShutdownExit

datatype notice = ThrottleNotice rat string | ErrorNotice

datatype effect =
    LogInfo string
  | LogWarn string
  | LogError string
  | ConsoleError string
  | ConsoleErrorObj string fault
  | Reply notice bool
  | FollowUp notice bool
  | Execute string
  | HandleTicketButton
  | SetTimeout millis callback
  | Login string
  | ClientDestroy
  | Exit int

text \<open>
  \<^verbatim>\<open>client.cooldowns\<close>: command name to (caller id to the \<^verbatim>\<open>Date.now()\<close> of the last
  allowed invocation).
\<close>

type_synonym registry = "string \<rightharpoonup> (string \<rightharpoonup> millis)"

datatype verdict = Allowed | Throttled rat

section \<open>The cooldown check (lines 110-133)\<close>

definition cooldownSeconds :: "command \<Rightarrow> int" where
  \<comment> \<open>\<^verbatim>\<open>command.cooldown || 3\<close>: \<^verbatim>\<open>undefined\<close> and \<open>0\<close> are falsy\<close>
  "cooldownSeconds cmd =
     (case cooldown cmd of None \<Rightarrow> 3 | Some c \<Rightarrow> if c = 0 then 3 else c)"

definition cooldownAmount :: "command \<Rightarrow> millis" where
  "cooldownAmount cmd = cooldownSeconds cmd * 1000"

definition ensureTimestamps :: "registry \<Rightarrow> string \<Rightarrow> registry" where
  \<comment> \<open>lines 112-114\<close>
  "ensureTimestamps cds n = (if cds n = None then cds(n \<mapsto> Map.empty) else cds)"

definition timestampsOf :: "registry \<Rightarrow> string \<Rightarrow> (string \<rightharpoonup> millis)" where
  \<comment> \<open>\<^verbatim>\<open>cooldowns.get(name)\<close>, read after \<open>ensureTimestamps\<close>\<close>
  "timestampsOf cds n = (case cds n of None \<Rightarrow> Map.empty | Some ts \<Rightarrow> ts)"

definition recordInvocation ::
  "command \<Rightarrow> string \<Rightarrow> millis \<Rightarrow> registry \<Rightarrow> verdict \<times> registry \<times> effect list" where
  \<comment> \<open>lines 132-133\<close>
  "recordInvocation cmd uid now cds =
     (Allowed,
      cds(data_name cmd \<mapsto> (timestampsOf cds (data_name cmd))(uid \<mapsto> now)),
      [SetTimeout (cooldownAmount cmd) (ForgetTimestamp (data_name cmd) uid)])"

definition cooldownCheck ::
  "command \<Rightarrow> string \<Rightarrow> millis \<Rightarrow> registry \<Rightarrow> verdict \<times> registry \<times> effect list" where
  "cooldownCheck cmd uid now cds =
     (let cds1 = ensureTimestamps cds (data_name cmd);
          timestamps = timestampsOf cds1 (data_name cmd);
          cooldownAmount = cooldownAmount cmd
      in case timestamps uid of
           None \<Rightarrow> recordInvocation cmd uid now cds1
         | Some t \<Rightarrow>
             (let expirationTime = t + cooldownAmount
              in if now < expirationTime
                 then (Throttled (of_int (expirationTime - now) / 1000), cds1, [])
                 else recordInvocation cmd uid now cds1))"

fun runCallback :: "callback \<Rightarrow> registry \<Rightarrow> registry" where
  \<comment> \<open>line 133: \<^verbatim>\<open>timestamps.delete(interaction.user.id)\<close> on the command's collection\<close>
  "runCallback (ForgetTimestamp n uid) cds =
     (case cds n of None \<Rightarrow> cds | Some ts \<Rightarrow> cds(n \<mapsto> ts(uid := None)))"
| "runCallback CrashExit cds = cds"
| "runCallback ShutdownExit cds = cds"

section \<open>The InteractionCreate handler (lines 99-166)\<close>

text \<open>
  The \<^verbatim>\<open>try\<close> block either finishes, and then the handler's promise settles as the
  returned value does (\<^verbatim>\<open>return interaction.reply(...)\<close> hands the reply's promise
  out of the \<^verbatim>\<open>try\<close> without awaiting it), or raises into the \<^verbatim>\<open>catch\<close> block
  together with \<^verbatim>\<open>interaction.replied || interaction.deferred\<close>.
\<close>

datatype completion = Finished "fault option" | Raised fault bool

definition awaitHandler :: "settle \<Rightarrow> completion" where
  "awaitHandler s =
     (case thrown s of
        None \<Rightarrow> Finished None
      | Some e \<Rightarrow> Raised e (repliedAfter s \<or> deferredAfter s))"

definition tryBlock ::
  "(string \<rightharpoonup> command) \<Rightarrow> world \<Rightarrow> millis \<Rightarrow> interaction \<Rightarrow> registry
     \<Rightarrow> registry \<times> effect list \<times> completion" where
  "tryBlock commands w now i cds =
     (case itype i of
        ChatInputCommand \<Rightarrow>
          (case commands (commandName i) of
             None \<Rightarrow> (cds, [LogWarn (''Command not found: '' @ commandName i)], Finished None)
           | Some cmd \<Rightarrow>
               (case cooldownCheck cmd (user_id i) now cds of
                  (v, cds', scheduled) \<Rightarrow>
                    (case v of
                       Throttled timeLeft \<Rightarrow>
                         (cds',
                          scheduled @ [Reply (ThrottleNotice timeLeft (data_name cmd)) True],
                          Finished (reply_outcome w))
                     | Allowed \<Rightarrow>
                         (cds',
                          scheduled @ [Execute (data_name cmd)] @
                            (case thrown (execute cmd) of
                               None \<Rightarrow> [LogInfo (''Command executed: '' @ commandName i
                                                    @ '' by '' @ user_tag i)]
                             | Some e \<Rightarrow> []),
                          awaitHandler (execute cmd)))))
      | Button \<Rightarrow>
          (if prefix ''ticket_'' (customId i)
           then (cds, [HandleTicketButton], awaitHandler (handleTicketButton w))
           else (cds, [], Finished None))
      | OtherInteraction \<Rightarrow> (cds, [], Finished None))"

definition catchBlock :: "world \<Rightarrow> fault \<Rightarrow> bool \<Rightarrow> effect list" where
  "catchBlock w e answered =
     LogError (''Error handling interaction: '' @ rendering e) #
     (if answered
      then FollowUp ErrorNotice True #
           (case followUp_outcome w of
              None \<Rightarrow> []
            | Some err \<Rightarrow> [LogError (''Could not send error followup: '' @ rendering err)])
      else Reply ErrorNotice True #
           (case reply_outcome w of
              None \<Rightarrow> []
            | Some err \<Rightarrow> [LogError (''Could not send error reply: '' @ rendering err)]))"

text \<open>
  The result of one dispatch: the registry afterwards, the effects in order, and how
  the promise of the async listener settles (\<open>None\<close>: fulfilled, \<open>Some e\<close>: rejected
  with \<open>e\<close>, outside every \<^verbatim>\<open>catch\<close> of the listener).
\<close>

record result =
  cooldowns :: registry
  trace :: "effect list"
  settled :: "fault option"

definition onInteractionCreate ::
  "(string \<rightharpoonup> command) \<Rightarrow> world \<Rightarrow> millis \<Rightarrow> interaction \<Rightarrow> registry \<Rightarrow> result" where
  "onInteractionCreate commands w now i cds =
     (case tryBlock commands w now i cds of
        (cds', tr, c) \<Rightarrow>
          (case c of
             Finished s \<Rightarrow> \<lparr>cooldowns = cds', trace = tr, settled = s\<rparr>
           | Raised e answered \<Rightarrow>
               \<lparr>cooldowns = cds', trace = tr @ catchBlock w e answered, settled = None\<rparr>))"

section \<open>Observations on the registry and on traces\<close>

text \<open>
  The registry seen per (command, caller) pair, and the expiry instant the check derives
  from a stored timestamp: the code stores the time of the allowed invocation and adds
  the command's cooldown when it checks (line 121).
\<close>

definition entry :: "registry \<Rightarrow> string \<Rightarrow> string \<Rightarrow> millis option" where
  "entry cds n uid = (case cds n of None \<Rightarrow> None | Some ts \<Rightarrow> ts uid)"

definition expiry :: "command \<Rightarrow> string \<Rightarrow> registry \<Rightarrow> millis option" where
  "expiry cmd uid cds =
     (case entry cds (data_name cmd) uid of
        None \<Rightarrow> None
      | Some t \<Rightarrow> Some (t + cooldownAmount cmd))"

fun isNotification :: "effect \<Rightarrow> bool" where
  "isNotification (Reply m eph) = True"
| "isNotification (FollowUp m eph) = True"
| "isNotification e = False"

fun isTimer :: "effect \<Rightarrow> bool" where
  "isTimer (SetTimeout d cb) = True"
| "isTimer e = False"

section \<open>Process-level handlers and shutdown (lines 39-82)\<close>

text \<open>
  The process as the lifecycle code sees it: whether \<^verbatim>\<open>client.isReady()\<close> holds, what
  has been written or scheduled so far, and the exit status once \<^verbatim>\<open>process.exit\<close>
  has run. \<^verbatim>\<open>client.destroy()\<close> closes the gateway session, after which the client of
  discord.js is no longer ready.
\<close>

record process =
  clientReady :: bool
  written :: "effect list"
  exitStatus :: "int option"

definition emit :: "effect \<Rightarrow> process \<Rightarrow> process" where
  "emit e p = p\<lparr>written := written p @ [e]\<rparr>"

definition processExit :: "int \<Rightarrow> process \<Rightarrow> process" where
  "processExit c p = p\<lparr>written := written p @ [Exit c], exitStatus := Some c\<rparr>"

definition onUnhandledRejection :: "fault \<Rightarrow> process \<Rightarrow> process" where
  \<comment> \<open>lines 40-43\<close>
  "onUnhandledRejection error p =
     emit (ConsoleErrorObj ''Unhandled rejection:'' error)
       (emit (LogError (''Unhandled rejection: '' @ rendering error)) p)"

definition onUncaughtException :: "fault \<Rightarrow> process \<Rightarrow> process" where
  \<comment> \<open>lines 45-55\<close>
  "onUncaughtException error p =
     emit (SetTimeout 1000 CrashExit)
       (emit (ConsoleErrorObj ''Uncaught exception:'' error)
         (emit (LogError (stack error))
           (emit (LogError (''Uncaught exception: '' @ message error)) p)))"

definition gracefulShutdown :: "process \<Rightarrow> process" where
  \<comment> \<open>lines 68-82\<close>
  "gracefulShutdown p =
     (let p1 = emit (LogInfo ''Shutting down gracefully...'') p;
          p2 = (if clientReady p1
                then emit (LogInfo ''Discord client destroyed'')
                       ((emit ClientDestroy p1)\<lparr>clientReady := False\<rparr>)
                else p1)
      in emit (SetTimeout 1500 ShutdownExit) p2)"

definition onSIGINT :: "process \<Rightarrow> process" where
  "onSIGINT p = gracefulShutdown (emit (LogInfo ''Bot shutdown initiated (SIGINT)'') p)"

definition onSIGTERM :: "process \<Rightarrow> process" where
  "onSIGTERM p = gracefulShutdown (emit (LogInfo ''Bot shutdown initiated (SIGTERM)'') p)"

fun fireTimer :: "callback \<Rightarrow> process \<Rightarrow> process" where
  \<comment> \<open>the bodies of the callbacks at lines 51-54 and 78-81\<close>
  "fireTimer CrashExit p =
     processExit 1
       (emit (ConsoleError ''An uncaught exception caused the bot to crash. Exiting...'') p)"
| "fireTimer ShutdownExit p = processExit 0 (emit (LogInfo ''Bot shutdown complete'') p)"
| "fireTimer (ForgetTimestamp n uid) p = p"

text \<open>
  What the event loop hands to the process. Once \<^verbatim>\<open>process.exit\<close> has run there is
  no process left to receive anything.
\<close>

datatype event =
    SIGINT
  | SIGTERM
  | UnhandledRejection fault
  | UncaughtException fault
  | TimerFires callback

fun handle :: "event \<Rightarrow> process \<Rightarrow> process" where
  "handle SIGINT p = onSIGINT p"
| "handle SIGTERM p = onSIGTERM p"
| "handle (UnhandledRejection e) p = onUnhandledRejection e p"
| "handle (UncaughtException e) p = onUncaughtException e p"
| "handle (TimerFires cb) p = fireTimer cb p"

definition deliver :: "event \<Rightarrow> process \<Rightarrow> process" where
  "deliver ev p = (case exitStatus p of Some c \<Rightarrow> p | None \<Rightarrow> handle ev p)"

fun run :: "event list \<Rightarrow> process \<Rightarrow> process" where
  "run [] p = p"
| "run (ev # evs) p = run evs (deliver ev p)"

section \<open>Startup (lines 12-23 and 179-199)\<close>

text \<open>
  What startup reads from outside: \<^verbatim>\<open>process.env\<close>, \<^verbatim>\<open>config.token\<close> of config.js,
  whether the \<^verbatim>\<open>try\<close> of \<^verbatim>\<open>setupLogger\<close> fails, and how \<^verbatim>\<open>client.login\<close> settles.
\<close>

record startup =
  environ :: "string \<rightharpoonup> string"
  config_token :: string
  loggerSetup :: "fault option"
  login_outcome :: "fault option"

definition required :: "string list" where
  "required = [''DISCORD_TOKEN'', ''CLIENT_ID'']"

definition truthy :: "string option \<Rightarrow> bool" where
  \<comment> \<open>an environment value is falsy when it is \<^verbatim>\<open>undefined\<close> or the empty string\<close>
  "truthy v = (case v of None \<Rightarrow> False | Some s \<Rightarrow> s \<noteq> [])"

definition missingVars :: "(string \<rightharpoonup> string) \<Rightarrow> string list" where
  "missingVars env = filter (\<lambda>envVar. \<not> truthy (env envVar)) required"

definition emitAll :: "effect list \<Rightarrow> process \<Rightarrow> process" where
  "emitAll es p = p\<lparr>written := written p @ es\<rparr>"

definition checkRequiredEnvVars :: "(string \<rightharpoonup> string) \<Rightarrow> process \<Rightarrow> process" where
  "checkRequiredEnvVars env p =
     (let missing = missingVars env
      in if length missing > 0
         then processExit 1
                (emitAll
                  ([ConsoleError ''Error: Missing required environment variables:''] @
                   map (\<lambda>envVar. ConsoleError (''- '' @ envVar)) missing @
                   [ConsoleError ''Please add them to your .env file and restart the bot.''])
                  p)
         else p)"

definition setupLogger :: "fault option \<Rightarrow> process \<Rightarrow> process" where
  \<comment> \<open>logger.js: the body logs once; its own \<^verbatim>\<open>catch\<close> reports on the console\<close>
  "setupLogger failure p =
     (case failure of
        None \<Rightarrow> emit (LogInfo ''Logger initialized'') p
      | Some error \<Rightarrow> emit (ConsoleErrorObj ''Failed to initialize logger:'' error) p)"

definition init :: "startup \<Rightarrow> process \<Rightarrow> process" where
  "init s p =
     (let p1 = checkRequiredEnvVars (environ s) p
      in case exitStatus p1 of
           Some c \<Rightarrow> p1
         | None \<Rightarrow>
             (let p2 = emit (LogInfo ''Starting bot...'') (setupLogger (loggerSetup s) p1);
                  p3 = emit (Login (config_token s)) p2
              in case login_outcome s of
                   None \<Rightarrow> p3
                 | Some error \<Rightarrow>
                     processExit 1
                       (emit (LogError (''Initialization error: '' @ message error))
                         (emit (ConsoleErrorObj ''Failed to initialize bot:'' error) p3))))"

section \<open>Timers and the turns of the event loop\<close>

text \<open>
  \<^verbatim>\<open>setTimeout\<close> of the runtime replaces a delay outside 1 .. 2147483647 ms by 1 ms.
  A pending timer is kept with the earliest time at which its callback may run. The
  client between two turns of the event loop: \<^verbatim>\<open>client.cooldowns\<close>, the pending
  timers in the order they were scheduled, and the effects performed so far. A turn is
  either one interaction handled at the time \<^verbatim>\<open>Date.now()\<close> returns, or the timers
  phase at some time, which runs every pending callback whose time has come. A timer
  never runs early; an interaction that is handled first is handled on the registry as
  it is then.
\<close>

definition TIMEOUT_MAX :: millis where
  "TIMEOUT_MAX = 2147483647"

definition timerDelay :: "millis \<Rightarrow> millis" where
  "timerDelay after = (if 1 \<le> after \<and> after \<le> TIMEOUT_MAX then after else 1)"

fun scheduled :: "millis \<Rightarrow> effect list \<Rightarrow> (millis \<times> callback) list" where
  "scheduled now [] = []"
| "scheduled now (SetTimeout after cb # es) = (now + timerDelay after, cb) # scheduled now es"
| "scheduled now (e # es) = scheduled now es"

record client =
  client_cooldowns :: registry
  pendingTimers :: "(millis \<times> callback) list"
  effects :: "effect list"

datatype turn = Interaction millis world interaction | TimersPhase millis

fun takeTurn :: "(string \<rightharpoonup> command) \<Rightarrow> turn \<Rightarrow> client \<Rightarrow> client" where
  "takeTurn commands (Interaction now w i) c =
     (let r = onInteractionCreate commands w now i (client_cooldowns c)
      in \<lparr>client_cooldowns = cooldowns r,
          pendingTimers = pendingTimers c @ scheduled now (trace r),
          effects = effects c @ trace r\<rparr>)"
| "takeTurn commands (TimersPhase tick) c =
     \<lparr>client_cooldowns =
        fold runCallback (map snd (filter (\<lambda>t. fst t \<le> tick) (pendingTimers c)))
          (client_cooldowns c),
      pendingTimers = filter (\<lambda>t. tick < fst t) (pendingTimers c),
      effects = effects c\<rparr>"

fun play :: "(string \<rightharpoonup> command) \<Rightarrow> turn list \<Rightarrow> client \<Rightarrow> client" where
  "play commands [] c = c"
| "play commands (t # ts) c = play commands ts (takeTurn commands t c)"

text \<open>What a process has written or scheduled between two of its states.\<close>

definition since :: "process \<Rightarrow> process \<Rightarrow> effect list" where
  "since p q = drop (length (written p)) (written q)"

section \<open>Sample inputs\<close>

definition boom :: fault where
  "boom = \<lparr>rendering = ''Error: boom'', message = ''boom'', stack = ''Error: boom at x''\<rparr>"

definition resolves :: settle where
  "resolves = \<lparr>thrown = None, repliedAfter = True, deferredAfter = False\<rparr>"

definition rejects :: settle where
  "rejects = \<lparr>thrown = Some boom, repliedAfter = False, deferredAfter = False\<rparr>"

definition ping :: command where
  "ping = \<lparr>data_name = ''ping'', cooldown = None, execute = resolves\<rparr>"

definition flaky :: command where
  "flaky = \<lparr>data_name = ''flaky'', cooldown = Some 5, execute = rejects\<rparr>"

definition registered :: "string \<rightharpoonup> command" where
  "registered = [''ping'' \<mapsto> ping, ''flaky'' \<mapsto> flaky]"

definition slash :: "string \<Rightarrow> string \<Rightarrow> interaction" where
  "slash name uid =
     \<lparr>itype = ChatInputCommand, commandName = name, customId = [],
      user_id = uid, user_tag = uid @ ''#0001''\<rparr>"

definition calm :: world where
  "calm = \<lparr>reply_outcome = None, followUp_outcome = None, handleTicketButton = resolves\<rparr>"

definition expired :: world where
  \<comment> \<open>the caller's interaction token has lapsed: every response is rejected\<close>
  "expired = \<lparr>reply_outcome = Some boom, followUp_outcome = Some boom,
              handleTicketButton = resolves\<rparr>"

definition fresh :: process where
  "fresh = \<lparr>clientReady = True, written = [], exitStatus = None\<rparr>"

definition onlyClientId :: startup where
  "onlyClientId = \<lparr>environ = [''CLIENT_ID'' \<mapsto> ''42''], config_token = [],
                   loggerSetup = None, login_outcome = None\<rparr>"

definition bothSet :: startup where
  "bothSet = \<lparr>environ = [''CLIENT_ID'' \<mapsto> ''42'', ''DISCORD_TOKEN'' \<mapsto> ''secret''],
              config_token = ''secret'', loggerSetup = None, login_outcome = None\<rparr>"

definition noneSet :: startup where
  "noneSet = \<lparr>environ = [''DISCORD_TOKEN'' \<mapsto> []], config_token = [],
              loggerSetup = None, login_outcome = None\<rparr>"

definition slow :: command where
  "slow = \<lparr>data_name = ''slow'', cooldown = Some 2147484, execute = resolves\<rparr>"

definition idle :: client where
  "idle = \<lparr>client_cooldowns = Map.empty, pendingTimers = [], effects = []\<rparr>"

section \<open>Facts about the cooldown check\<close>

lemma entry_ensureTimestamps: "entry (ensureTimestamps cds n) m uid = entry cds m uid"
  by (simp add: entry_def ensureTimestamps_def)

lemma timestampsOf_ensure:
  "timestampsOf (ensureTimestamps cds n) n uid = entry cds n uid"
  by (simp add: entry_def ensureTimestamps_def timestampsOf_def split: option.splits)

lemma ensureTimestamps_present: "cds n = Some ts \<Longrightarrow> ensureTimestamps cds n = cds"
  by (simp add: ensureTimestamps_def)

lemma entry_recordInvocation:
  "entry (fst (snd (recordInvocation cmd uid now cds))) n u =
     (if n = data_name cmd \<and> u = uid then Some now else entry cds n u)"
  by (simp add: recordInvocation_def entry_def timestampsOf_def split: option.splits)

lemma cooldownCheck_throttled:
  assumes "entry cds (data_name cmd) uid = Some t" and "now < t + cooldownAmount cmd"
  shows "cooldownCheck cmd uid now cds =
           (Throttled (of_int (t + cooldownAmount cmd - now) / 1000), cds, [])"
proof -
  from assms(1) obtain ts where ts: "cds (data_name cmd) = Some ts"
    by (auto simp: entry_def split: option.splits)
  have "timestampsOf (ensureTimestamps cds (data_name cmd)) (data_name cmd) uid = Some t"
    using assms(1) by (simp add: timestampsOf_ensure)
  then show ?thesis
    using assms(2) ts by (simp add: cooldownCheck_def Let_def ensureTimestamps_present)
qed

lemma cooldownCheck_allowed:
  assumes "entry cds (data_name cmd) uid = None
           \<or> (\<exists>t. entry cds (data_name cmd) uid = Some t \<and> t + cooldownAmount cmd \<le> now)"
  shows "cooldownCheck cmd uid now cds =
           recordInvocation cmd uid now (ensureTimestamps cds (data_name cmd))"
  using assms
  by (auto simp: cooldownCheck_def Let_def timestampsOf_ensure split: option.splits)

lemma cooldownCheck_cases:
  "cooldownCheck cmd uid now cds =
     (case entry cds (data_name cmd) uid of
        None \<Rightarrow> recordInvocation cmd uid now (ensureTimestamps cds (data_name cmd))
      | Some t \<Rightarrow>
          if now < t + cooldownAmount cmd
          then (Throttled (of_int (t + cooldownAmount cmd - now) / 1000), cds, [])
          else recordInvocation cmd uid now (ensureTimestamps cds (data_name cmd)))"
  by (simp add: cooldownCheck_throttled cooldownCheck_allowed split: option.splits)

lemma entry_cooldownCheck_other:
  assumes "n \<noteq> data_name cmd \<or> u \<noteq> uid"
  shows "entry (fst (snd (cooldownCheck cmd uid now cds))) n u = entry cds n u"
  using assms
  by (auto simp: cooldownCheck_cases entry_recordInvocation entry_ensureTimestamps
           split: option.splits)

section \<open>Facts about one dispatch\<close>

lemma dispatch_throttled:
  assumes "itype i = ChatInputCommand" and "commands (commandName i) = Some cmd"
    and "entry cds (data_name cmd) (user_id i) = Some t" and "now < t + cooldownAmount cmd"
  shows "onInteractionCreate commands w now i cds =
           \<lparr>cooldowns = cds,
            trace = [Reply (ThrottleNotice (of_int (t + cooldownAmount cmd - now) / 1000)
                              (data_name cmd)) True],
            settled = reply_outcome w\<rparr>"
  using assms(1,2) cooldownCheck_throttled [OF assms(3,4)]
  by (simp add: onInteractionCreate_def tryBlock_def)

lemma dispatch_allowed:
  assumes "itype i = ChatInputCommand" and "commands (commandName i) = Some cmd"
    and "entry cds (data_name cmd) (user_id i) = None
         \<or> (\<exists>t. entry cds (data_name cmd) (user_id i) = Some t \<and> t + cooldownAmount cmd \<le> now)"
  shows "onInteractionCreate commands w now i cds =
           \<lparr>cooldowns = fst (snd (recordInvocation cmd (user_id i) now
                                     (ensureTimestamps cds (data_name cmd)))),
            trace = SetTimeout (cooldownAmount cmd) (ForgetTimestamp (data_name cmd) (user_id i))
                    # Execute (data_name cmd)
                    # (case thrown (execute cmd) of
                         None \<Rightarrow> [LogInfo (''Command executed: '' @ commandName i
                                              @ '' by '' @ user_tag i)]
                       | Some e \<Rightarrow>
                           catchBlock w e (repliedAfter (execute cmd) \<or> deferredAfter (execute cmd))),
            settled = None\<rparr>"
  using assms(1,2) cooldownCheck_allowed [OF assms(3)]
  by (simp add: onInteractionCreate_def tryBlock_def recordInvocation_def awaitHandler_def
           split: option.splits)

lemma verdict_cases:
  "fst (cooldownCheck cmd uid now cds) =
     (case entry cds (data_name cmd) uid of
        None \<Rightarrow> Allowed
      | Some t \<Rightarrow> if now < t + cooldownAmount cmd
                  then Throttled (of_int (t + cooldownAmount cmd - now) / 1000)
                  else Allowed)"
  by (simp add: cooldownCheck_cases recordInvocation_def split: option.splits)

lemma entry_after_allowed:
  assumes "itype i = ChatInputCommand" and "commands (commandName i) = Some cmd"
    and "fst (cooldownCheck cmd (user_id i) now cds) = Allowed"
  shows "entry (cooldowns (onInteractionCreate commands w now i cds)) (data_name cmd) (user_id i)
           = Some now"
proof -
  from assms(3) have "entry cds (data_name cmd) (user_id i) = None
         \<or> (\<exists>t. entry cds (data_name cmd) (user_id i) = Some t \<and> t + cooldownAmount cmd \<le> now)"
    by (auto simp: verdict_cases split: option.splits if_splits)
  then show ?thesis
    using assms(1,2) by (simp add: dispatch_allowed entry_recordInvocation)
qed

lemma dispatch_frame:
  assumes "itype i = ChatInputCommand" and "commands (commandName i) = Some cmd"
    and "n \<noteq> data_name cmd \<or> u \<noteq> user_id i"
  shows "entry (cooldowns (onInteractionCreate commands w now i cds)) n u = entry cds n u"
proof (cases "fst (cooldownCheck cmd (user_id i) now cds)")
  case Allowed
  then have "entry cds (data_name cmd) (user_id i) = None
         \<or> (\<exists>t. entry cds (data_name cmd) (user_id i) = Some t \<and> t + cooldownAmount cmd \<le> now)"
    by (auto simp: verdict_cases split: option.splits if_splits)
  then show ?thesis
    using assms by (auto simp: dispatch_allowed entry_recordInvocation entry_ensureTimestamps)
next
  case (Throttled tl)
  then obtain t where "entry cds (data_name cmd) (user_id i) = Some t" "now < t + cooldownAmount cmd"
    by (auto simp: verdict_cases split: option.splits if_splits)
  then show ?thesis
    using assms(1,2) by (simp add: dispatch_throttled)
qed

lemma entry_runCallback:
  "entry (runCallback (ForgetTimestamp c uid) cds) n u =
     (if n = c \<and> u = uid then None else entry cds n u)"
  by (auto simp: entry_def split: option.splits)

lemma check_and_record_step:
  assumes "itype i = ChatInputCommand" and "commands (commandName i) = Some cmd"
  shows
    "cooldownSeconds cmd
       = (case cooldown cmd of None \<Rightarrow> 3 | Some c \<Rightarrow> if c = 0 then 3 else c) \<and>
     (expiry cmd (user_id i) cds = None
        \<or> (\<exists>x. expiry cmd (user_id i) cds = Some x \<and> x \<le> now) \<longrightarrow>
      fst (cooldownCheck cmd (user_id i) now cds) = Allowed \<and>
      Execute (data_name cmd) \<in> set (trace (onInteractionCreate commands w now i cds)) \<and>
      expiry cmd (user_id i) (cooldowns (onInteractionCreate commands w now i cds))
        = Some (now + cooldownSeconds cmd * 1000)) \<and>
     (\<forall>x. expiry cmd (user_id i) cds = Some x \<and> now < x \<longrightarrow>
      fst (cooldownCheck cmd (user_id i) now cds) = Throttled (of_int (x - now) / 1000) \<and>
      trace (onInteractionCreate commands w now i cds)
        = [Reply (ThrottleNotice (of_int (x - now) / 1000) (data_name cmd)) True] \<and>
      cooldowns (onInteractionCreate commands w now i cds) = cds)"
proof (intro conjI impI allI)
  show "cooldownSeconds cmd
       = (case cooldown cmd of None \<Rightarrow> 3 | Some c \<Rightarrow> if c = 0 then 3 else c)"
    by (simp add: cooldownSeconds_def)
next
  assume "expiry cmd (user_id i) cds = None
        \<or> (\<exists>x. expiry cmd (user_id i) cds = Some x \<and> x \<le> now)"
  then have free: "entry cds (data_name cmd) (user_id i) = None
         \<or> (\<exists>t. entry cds (data_name cmd) (user_id i) = Some t \<and> t + cooldownAmount cmd \<le> now)"
    by (auto simp: expiry_def split: option.splits)
  then show "fst (cooldownCheck cmd (user_id i) now cds) = Allowed"
    by (auto simp: verdict_cases)
  show "Execute (data_name cmd) \<in> set (trace (onInteractionCreate commands w now i cds))"
    using assms free by (simp add: dispatch_allowed)
  show "expiry cmd (user_id i) (cooldowns (onInteractionCreate commands w now i cds))
        = Some (now + cooldownSeconds cmd * 1000)"
    using assms free
    by (simp add: dispatch_allowed expiry_def entry_recordInvocation cooldownAmount_def)
next
  fix x
  assume "expiry cmd (user_id i) cds = Some x \<and> now < x"
  then obtain t where t: "entry cds (data_name cmd) (user_id i) = Some t"
      "now < t + cooldownAmount cmd" and x: "x = t + cooldownAmount cmd"
    by (auto simp: expiry_def split: option.splits)
  show "fst (cooldownCheck cmd (user_id i) now cds) = Throttled (of_int (x - now) / 1000)"
    using t x by (simp add: verdict_cases)
  show "trace (onInteractionCreate commands w now i cds)
        = [Reply (ThrottleNotice (of_int (x - now) / 1000) (data_name cmd)) True]"
    using assms t x by (simp add: dispatch_throttled)
  show "cooldowns (onInteractionCreate commands w now i cds) = cds"
    using assms t by (simp add: dispatch_throttled)
qed


lemma second_invocation:
  assumes "itype i = ChatInputCommand" and "commands (commandName i) = Some cmd"
    and "itype i2 = ChatInputCommand" and "commandName i2 = commandName i"
    and "user_id i2 = user_id i"
    and "fst (cooldownCheck cmd (user_id i) t0 cds) = Allowed"
  shows
    "(t0 \<le> t1 \<and> t1 < t0 + cooldownSeconds cmd * 1000 \<longrightarrow>
        trace (onInteractionCreate commands w2 t1 i2
                 (cooldowns (onInteractionCreate commands w t0 i cds)))
          = [Reply (ThrottleNotice (of_int (t0 + cooldownSeconds cmd * 1000 - t1) / 1000)
                      (data_name cmd)) True] \<and>
        0 < (of_int (t0 + cooldownSeconds cmd * 1000 - t1) / 1000 :: rat) \<and>
        (of_int (t0 + cooldownSeconds cmd * 1000 - t1) / 1000 :: rat)
          \<le> of_int (cooldownSeconds cmd)) \<and>
     (t0 + cooldownSeconds cmd * 1000 \<le> t1 \<longrightarrow>
        Execute (data_name cmd)
          \<in> set (trace (onInteractionCreate commands w2 t1 i2
                          (cooldowns (onInteractionCreate commands w t0 i cds)))) \<and>
        Execute (data_name cmd)
          \<in> set (trace (onInteractionCreate commands w2 t1 i2
                          (runCallback (ForgetTimestamp (data_name cmd) (user_id i))
                             (cooldowns (onInteractionCreate commands w t0 i cds))))))"
proof -
  let ?cds1 = "cooldowns (onInteractionCreate commands w t0 i cds)"
  have cmd2: "commands (commandName i2) = Some cmd" using assms(2,4) by simp
  have stored: "entry ?cds1 (data_name cmd) (user_id i2) = Some t0"
    using entry_after_allowed [of i commands cmd t0 cds w] assms by simp
  have gone: "entry (runCallback (ForgetTimestamp (data_name cmd) (user_id i)) ?cds1)
                (data_name cmd) (user_id i2) = None"
    using assms(5) by (simp add: entry_runCallback del: runCallback.simps)
  show ?thesis
  proof (intro conjI impI)
    assume w: "t0 \<le> t1 \<and> t1 < t0 + cooldownSeconds cmd * 1000"
    then have "t1 < t0 + cooldownAmount cmd" by (simp add: cooldownAmount_def)
    with stored show "trace (onInteractionCreate commands w2 t1 i2 ?cds1)
          = [Reply (ThrottleNotice (of_int (t0 + cooldownSeconds cmd * 1000 - t1) / 1000)
                      (data_name cmd)) True]"
      using assms(3) cmd2 by (simp add: dispatch_throttled cooldownAmount_def)
    from w show "0 < (of_int (t0 + cooldownSeconds cmd * 1000 - t1) / 1000 :: rat)"
      by simp
    from w have "t0 + cooldownSeconds cmd * 1000 - t1 \<le> cooldownSeconds cmd * 1000"
      by simp
    then have "(of_int (t0 + cooldownSeconds cmd * 1000 - t1) :: rat)
                 \<le> of_int (cooldownSeconds cmd * 1000)"
      by (simp only: of_int_le_iff)
    then show "(of_int (t0 + cooldownSeconds cmd * 1000 - t1) / 1000 :: rat)
          \<le> of_int (cooldownSeconds cmd)"
      by simp
  next
    assume "t0 + cooldownSeconds cmd * 1000 \<le> t1"
    then have late: "t0 + cooldownAmount cmd \<le> t1" by (simp add: cooldownAmount_def)
    with stored show "Execute (data_name cmd)
          \<in> set (trace (onInteractionCreate commands w2 t1 i2 ?cds1))"
      using assms(3) cmd2 by (simp add: dispatch_allowed)
    from gone show "Execute (data_name cmd)
          \<in> set (trace (onInteractionCreate commands w2 t1 i2
                          (runCallback (ForgetTimestamp (data_name cmd) (user_id i)) ?cds1)))"
      using assms(3) cmd2 by (simp add: dispatch_allowed)
  qed
qed

lemma throttled_verdictD:
  assumes "fst (cooldownCheck cmd uid now cds) = Throttled timeLeft"
  shows "\<exists>t. entry cds (data_name cmd) uid = Some t \<and> now < t + cooldownAmount cmd
             \<and> timeLeft = of_int (t + cooldownAmount cmd - now) / 1000"
  using assms by (auto simp: verdict_cases split: option.splits if_splits)

lemma allowed_verdictD:
  assumes "fst (cooldownCheck cmd uid now cds) = Allowed"
  shows "entry cds (data_name cmd) uid = None
         \<or> (\<exists>t. entry cds (data_name cmd) uid = Some t \<and> t + cooldownAmount cmd \<le> now)"
  using assms by (auto simp: verdict_cases split: option.splits if_splits)

lemma verdict_depends_on_entry:
  assumes "entry cds' (data_name cmd) uid = entry cds (data_name cmd) uid"
  shows "fst (cooldownCheck cmd uid now cds') = fst (cooldownCheck cmd uid now cds)"
  using assms by (simp add: verdict_cases)

section \<open>Facts about the process-level handlers\<close>

lemma written_emit [simp]: "written (emit e p) = written p @ [e]"
  by (simp add: emit_def)
lemma exitStatus_emit [simp]: "exitStatus (emit e p) = exitStatus p"
  by (simp add: emit_def)
lemma clientReady_emit [simp]: "clientReady (emit e p) = clientReady p"
  by (simp add: emit_def)
lemma written_processExit [simp]: "written (processExit c p) = written p @ [Exit c]"
  by (simp add: processExit_def)
lemma exitStatus_processExit [simp]: "exitStatus (processExit c p) = Some c"
  by (simp add: processExit_def)

lemma gracefulShutdown_written:
  "written (gracefulShutdown p) =
     written p @ [LogInfo ''Shutting down gracefully...''] @
     (if clientReady p then [ClientDestroy, LogInfo ''Discord client destroyed''] else []) @
     [SetTimeout 1500 ShutdownExit]"
  by (simp add: gracefulShutdown_def Let_def)

lemma gracefulShutdown_state:
  "clientReady (gracefulShutdown p) = False \<and> exitStatus (gracefulShutdown p) = exitStatus p"
  by (simp add: gracefulShutdown_def Let_def)


lemma deliver_running: "exitStatus p = None \<Longrightarrow> deliver ev p = handle ev p"
  by (simp add: deliver_def)

lemma deliver_exited: "exitStatus p = Some c \<Longrightarrow> deliver ev p = p"
  by (simp add: deliver_def)

lemma signal_written:
  assumes "s = SIGINT \<or> s = SIGTERM"
  shows "filter isTimer (written (handle s p))
           = filter isTimer (written p) @ [SetTimeout 1500 ShutdownExit]"
    and "filter (\<lambda>e. e = ClientDestroy) (written (handle s p))
           = filter (\<lambda>e. e = ClientDestroy) (written p)
             @ (if clientReady p then [ClientDestroy] else [])"
    and "clientReady (handle s p) = False"
    and "exitStatus (handle s p) = exitStatus p"
  using assms
  by (auto simp: onSIGINT_def onSIGTERM_def gracefulShutdown_written gracefulShutdown_state)

section \<open>Facts about startup\<close>

lemma since_append: "written q = written p @ es \<Longrightarrow> since p q = es"
  by (simp add: since_def)

lemma missingVars_cases:
  "missingVars env =
     (if truthy (env ''DISCORD_TOKEN'') then [] else [''DISCORD_TOKEN'']) @
     (if truthy (env ''CLIENT_ID'') then [] else [''CLIENT_ID''])"
  by (simp add: missingVars_def required_def)

lemma truthy_iff: "truthy v \<longleftrightarrow> \<not> (v = None \<or> v = Some [])"
  by (simp add: truthy_def split: option.splits)

lemma init_missing:
  assumes "exitStatus p = None" and "missingVars (environ s) \<noteq> []"
  shows "written (init s p) = written p @
           ([ConsoleError ''Error: Missing required environment variables:''] @
            map (\<lambda>envVar. ConsoleError (''- '' @ envVar)) (missingVars (environ s)) @
            [ConsoleError ''Please add them to your .env file and restart the bot.'',
             Exit 1])"
    and "exitStatus (init s p) = Some 1"
  using assms by (simp_all add: init_def checkRequiredEnvVars_def Let_def emitAll_def)

lemma init_complete:
  assumes "exitStatus p = None" and "missingVars (environ s) = []"
  shows "written (init s p) = written p @
           ((case loggerSetup s of
               None \<Rightarrow> [LogInfo ''Logger initialized'']
             | Some error \<Rightarrow> [ConsoleErrorObj ''Failed to initialize logger:'' error]) @
            [LogInfo ''Starting bot...'', Login (config_token s)] @
            (case login_outcome s of
               None \<Rightarrow> []
             | Some error \<Rightarrow> [ConsoleErrorObj ''Failed to initialize bot:'' error,
                                LogError (''Initialization error: '' @ message error),
                                Exit 1]))"
  using assms
  by (simp add: init_def checkRequiredEnvVars_def Let_def setupLogger_def
           split: option.splits)

section \<open>Facts about a failed command\<close>

lemma catch_keeps_entry:
  assumes "itype i = ChatInputCommand" and "commands (commandName i) = Some cmd"
    and "fst (cooldownCheck cmd (user_id i) t cds) = Allowed"
    and "thrown (execute cmd) = Some e"
    and "itype i2 = ChatInputCommand" and "commandName i2 = commandName i"
    and "user_id i2 = user_id i"
  shows "LogError (''Error handling interaction: '' @ rendering e)
           \<in> set (trace (onInteractionCreate commands w t i cds)) \<and>
         entry (cooldowns (onInteractionCreate commands w t i cds)) (data_name cmd) (user_id i)
           = Some t \<and>
         expiry cmd (user_id i) (cooldowns (onInteractionCreate commands w t i cds))
           = Some (t + cooldownSeconds cmd * 1000) \<and>
         (t \<le> later \<and> later < t + cooldownSeconds cmd * 1000 \<longrightarrow>
            fst (cooldownCheck cmd (user_id i) later
                   (cooldowns (onInteractionCreate commands w t i cds)))
              = Throttled (of_int (t + cooldownSeconds cmd * 1000 - later) / 1000) \<and>
            trace (onInteractionCreate commands w2 later i2
                     (cooldowns (onInteractionCreate commands w t i cds)))
              = [Reply (ThrottleNotice (of_int (t + cooldownSeconds cmd * 1000 - later) / 1000)
                          (data_name cmd)) True])"
proof -
  let ?cds1 = "cooldowns (onInteractionCreate commands w t i cds)"
  have cmd2: "commands (commandName i2) = Some cmd" using assms(2,6) by simp
  have stored: "entry ?cds1 (data_name cmd) (user_id i) = Some t"
    using assms(1,2,3) by (rule entry_after_allowed)
  have logged: "LogError (''Error handling interaction: '' @ rendering e)
           \<in> set (trace (onInteractionCreate commands w t i cds))"
    using assms(1,2,4) allowed_verdictD [OF assms(3)]
    by (simp add: dispatch_allowed catchBlock_def)
  have exp: "expiry cmd (user_id i) ?cds1 = Some (t + cooldownSeconds cmd * 1000)"
    using stored by (simp add: expiry_def cooldownAmount_def)
  have again: "fst (cooldownCheck cmd (user_id i) later ?cds1)
              = Throttled (of_int (t + cooldownSeconds cmd * 1000 - later) / 1000) \<and>
            trace (onInteractionCreate commands w2 later i2 ?cds1)
              = [Reply (ThrottleNotice (of_int (t + cooldownSeconds cmd * 1000 - later) / 1000)
                          (data_name cmd)) True]"
    if "t \<le> later \<and> later < t + cooldownSeconds cmd * 1000"
  proof -
    from that have lt: "later < t + cooldownAmount cmd" by (simp add: cooldownAmount_def)
    have s2: "entry ?cds1 (data_name cmd) (user_id i2) = Some t"
      using stored assms(7) by simp
    show ?thesis
      using lt stored s2 assms(5) cmd2
      by (simp add: verdict_cases dispatch_throttled cooldownAmount_def)
  qed
  show ?thesis using logged stored exp again by blast
qed

section \<open>Unfolding the model on sample inputs\<close>

lemmas eval_defs =
  onInteractionCreate_def tryBlock_def cooldownCheck_def recordInvocation_def
  ensureTimestamps_def timestampsOf_def cooldownAmount_def cooldownSeconds_def
  awaitHandler_def catchBlock_def timerDelay_def TIMEOUT_MAX_def entry_def Let_def
  idle_def registered_def slash_def ping_def flaky_def slow_def calm_def resolves_def
  rejects_def boom_def

section \<open>Cooldown check and record\<close>

text \<open>
  C1. The claim is that a dispatch is Allowed when the pair has no entry or its expiry is
  at or before now, recording now plus the command's cooldown, and Throttled with
  remaining time expiry minus now otherwise, so that a second invocation within N seconds
  of an Allowed one is Throttled with remaining time in (0, N]. Each single dispatch does
  so, with the command's own cooldown (5 s for \<open>flaky\<close>: Throttled at 4999 ms, Allowed at
  5000 ms), and so do consecutive dispatches: after Allowed invocations at 0 and 3000 ms,
  the one at 3001 ms gets the wait-time reply. But the callback of line 133 deletes
  whatever entry the caller has when it runs. When the invocation at 3000 ms is handled
  before the timer of the first invocation (due at 3000 ms) has run, that timer then
  deletes the entry recorded at 3000 ms, and the invocation at 3001 ms, one millisecond
  after an Allowed one, is executed. Likewise for a cooldown of 2147484 s: the delay
  exceeds what \<^verbatim>\<open>setTimeout\<close> accepts, the timer is due after 1 ms, and an invocation
  one second after the first is executed.
\<close>

theorem stale_timer_lifts_cooldown:
  "fst (cooldownCheck flaky ''U1'' 4999 [''flaky'' \<mapsto> [''U1'' \<mapsto> 0]])
     = Throttled (1 / 1000) \<and>
   fst (cooldownCheck flaky ''U1'' 5000 [''flaky'' \<mapsto> [''U1'' \<mapsto> 0]]) = Allowed \<and>
   effects (play registered
              [Interaction 0 calm (slash ''ping'' ''U1''),
               Interaction 3000 calm (slash ''ping'' ''U1''),
               Interaction 3001 calm (slash ''ping'' ''U1'')] idle)
     = [SetTimeout 3000 (ForgetTimestamp ''ping'' ''U1''), Execute ''ping'',
        LogInfo ''Command executed: ping by U1#0001'',
        SetTimeout 3000 (ForgetTimestamp ''ping'' ''U1''), Execute ''ping'',
        LogInfo ''Command executed: ping by U1#0001'',
        Reply (ThrottleNotice (2999 / 1000) ''ping'') True] \<and>
   pendingTimers (play registered
              [Interaction 0 calm (slash ''ping'' ''U1''),
               Interaction 3000 calm (slash ''ping'' ''U1'')] idle)
     = [(3000, ForgetTimestamp ''ping'' ''U1''), (6000, ForgetTimestamp ''ping'' ''U1'')] \<and>
   entry (client_cooldowns (play registered
              [Interaction 0 calm (slash ''ping'' ''U1''),
               Interaction 3000 calm (slash ''ping'' ''U1''),
               TimersPhase 3000] idle)) ''ping'' ''U1'' = None \<and>
   effects (play registered
              [Interaction 0 calm (slash ''ping'' ''U1''),
               Interaction 3000 calm (slash ''ping'' ''U1''),
               TimersPhase 3000,
               Interaction 3001 calm (slash ''ping'' ''U1'')] idle)
     = [SetTimeout 3000 (ForgetTimestamp ''ping'' ''U1''), Execute ''ping'',
        LogInfo ''Command executed: ping by U1#0001'',
        SetTimeout 3000 (ForgetTimestamp ''ping'' ''U1''), Execute ''ping'',
        LogInfo ''Command executed: ping by U1#0001'',
        SetTimeout 3000 (ForgetTimestamp ''ping'' ''U1''), Execute ''ping'',
        LogInfo ''Command executed: ping by U1#0001''] \<and>
   pendingTimers (play [''slow'' \<mapsto> slow] [Interaction 0 calm (slash ''slow'' ''U1'')] idle)
     = [(1, ForgetTimestamp ''slow'' ''U1'')] \<and>
   effects (play [''slow'' \<mapsto> slow]
              [Interaction 0 calm (slash ''slow'' ''U1''),
               TimersPhase 1,
               Interaction 1000 calm (slash ''slow'' ''U1'')] idle)
     = [SetTimeout 2147484000 (ForgetTimestamp ''slow'' ''U1''), Execute ''slow'',
        LogInfo ''Command executed: slow by U1#0001'',
        SetTimeout 2147484000 (ForgetTimestamp ''slow'' ''U1''), Execute ''slow'',
        LogInfo ''Command executed: slow by U1#0001'']"
  by (simp add: eval_defs)

section \<open>Throttled invocations\<close>

text \<open>
  C2. Whenever the cooldown check of a dispatched command yields Throttled, the dispatch
  performs exactly one effect, the ephemeral wait-time reply carrying the remaining time
  and the command's name, and returns: the command's execute contract is not invoked, no
  other handler is, and the registry is left as it was.
\<close>

theorem throttled_never_executes:
  assumes "itype i = ChatInputCommand" and "commands (commandName i) = Some cmd"
    and "fst (cooldownCheck cmd (user_id i) now cds) = Throttled timeLeft"
  shows "trace (onInteractionCreate commands w now i cds)
           = [Reply (ThrottleNotice timeLeft (data_name cmd)) True] \<and>
         (\<forall>n. Execute n \<notin> set (trace (onInteractionCreate commands w now i cds))) \<and>
         HandleTicketButton \<notin> set (trace (onInteractionCreate commands w now i cds)) \<and>
         cooldowns (onInteractionCreate commands w now i cds) = cds"
proof -
  from throttled_verdictD [OF assms(3)] obtain t where
    "entry cds (data_name cmd) (user_id i) = Some t" "now < t + cooldownAmount cmd"
    "timeLeft = of_int (t + cooldownAmount cmd - now) / 1000"
    by blast
  then show ?thesis using assms(1,2) by (simp add: dispatch_throttled)
qed

theorem throttled_never_executes_witness:
  "itype (slash ''ping'' ''U1'') = ChatInputCommand \<and>
   registered (commandName (slash ''ping'' ''U1'')) = Some ping \<and>
   fst (cooldownCheck ping (user_id (slash ''ping'' ''U1'')) 1000 [''ping'' \<mapsto> [''U1'' \<mapsto> 0]])
     = Throttled 2 \<and>
   trace (onInteractionCreate registered calm 1000 (slash ''ping'' ''U1'')
            [''ping'' \<mapsto> [''U1'' \<mapsto> 0]])
     = [Reply (ThrottleNotice 2 ''ping'') True] \<and>
   Execute ''ping'' \<notin> set (trace (onInteractionCreate registered calm 1000 (slash ''ping'' ''U1'')
            [''ping'' \<mapsto> [''U1'' \<mapsto> 0]]))"
proof -
  let ?i = "slash ''ping'' ''U1''"
  let ?cds = "[''ping'' \<mapsto> [''U1'' \<mapsto> (0::int)]]"
  have h: "itype ?i = ChatInputCommand" "registered (commandName ?i) = Some ping"
    by (simp_all add: slash_def registered_def)
  have v: "fst (cooldownCheck ping (user_id ?i) 1000 ?cds) = Throttled 2"
    by (simp add: verdict_cases entry_def ping_def slash_def cooldownAmount_def
          cooldownSeconds_def)
  have n: "data_name ping = ''ping''" by (simp add: ping_def)
  from throttled_never_executes [of ?i registered ping 1000 ?cds 2 calm, OF h v]
  show ?thesis using h v n by simp
qed

section \<open>Faults of a command's execute contract\<close>

text \<open>
  C3. When the execute contract of an allowed command faults, the dispatch sends exactly
  one notification to the caller, the ephemeral error message: as a follow-up when the
  interaction was already replied to or deferred, as a new reply otherwise. The fault is
  logged, the listener's promise is fulfilled (nothing is re-thrown, so nothing reaches
  the process-level handlers), the dispatch never exits the process, and a rejected
  notification is caught and logged.
\<close>

theorem execute_fault_contained:
  assumes "itype i = ChatInputCommand" and "commands (commandName i) = Some cmd"
    and "fst (cooldownCheck cmd (user_id i) now cds) = Allowed"
    and "thrown (execute cmd) = Some e"
  shows "filter isNotification (trace (onInteractionCreate commands w now i cds))
           = [if repliedAfter (execute cmd) \<or> deferredAfter (execute cmd)
              then FollowUp ErrorNotice True else Reply ErrorNotice True] \<and>
         settled (onInteractionCreate commands w now i cds) = None \<and>
         (\<forall>c. Exit c \<notin> set (trace (onInteractionCreate commands w now i cds))) \<and>
         LogError (''Error handling interaction: '' @ rendering e)
           \<in> set (trace (onInteractionCreate commands w now i cds)) \<and>
         (\<forall>err. (repliedAfter (execute cmd) \<or> deferredAfter (execute cmd))
                  \<and> followUp_outcome w = Some err \<longrightarrow>
            LogError (''Could not send error followup: '' @ rendering err)
              \<in> set (trace (onInteractionCreate commands w now i cds))) \<and>
         (\<forall>err. \<not> repliedAfter (execute cmd) \<and> \<not> deferredAfter (execute cmd)
                  \<and> reply_outcome w = Some err \<longrightarrow>
            LogError (''Could not send error reply: '' @ rendering err)
              \<in> set (trace (onInteractionCreate commands w now i cds)))"
proof -
  have r: "onInteractionCreate commands w now i cds =
           \<lparr>cooldowns = fst (snd (recordInvocation cmd (user_id i) now
                                     (ensureTimestamps cds (data_name cmd)))),
            trace = SetTimeout (cooldownAmount cmd) (ForgetTimestamp (data_name cmd) (user_id i))
                    # Execute (data_name cmd)
                    # catchBlock w e (repliedAfter (execute cmd) \<or> deferredAfter (execute cmd)),
            settled = None\<rparr>"
    using assms(1,2,4) allowed_verdictD [OF assms(3)] by (simp add: dispatch_allowed)
  show ?thesis
    unfolding r by (auto simp: catchBlock_def split: option.splits)
qed

theorem execute_fault_contained_witness:
  "itype (slash ''flaky'' ''U1'') = ChatInputCommand \<and>
   registered (commandName (slash ''flaky'' ''U1'')) = Some flaky \<and>
   fst (cooldownCheck flaky (user_id (slash ''flaky'' ''U1'')) 0 Map.empty) = Allowed \<and>
   thrown (execute flaky) = Some boom \<and>
   reply_outcome expired = Some boom \<and>
   filter isNotification
     (trace (onInteractionCreate registered expired 0 (slash ''flaky'' ''U1'') Map.empty))
     = [Reply ErrorNotice True] \<and>
   settled (onInteractionCreate registered expired 0 (slash ''flaky'' ''U1'') Map.empty) = None \<and>
   LogError ''Could not send error reply: Error: boom''
     \<in> set (trace (onInteractionCreate registered expired 0 (slash ''flaky'' ''U1'') Map.empty))"
proof -
  let ?i = "slash ''flaky'' ''U1''"
  have h: "itype ?i = ChatInputCommand" "registered (commandName ?i) = Some flaky"
    by (simp_all add: slash_def registered_def)
  have v: "fst (cooldownCheck flaky (user_id ?i) 0 Map.empty) = Allowed"
    by (simp add: verdict_cases entry_def)
  have t: "thrown (execute flaky) = Some boom"
    "\<not> repliedAfter (execute flaky)" "\<not> deferredAfter (execute flaky)"
    "reply_outcome expired = Some boom" "rendering boom = ''Error: boom''"
    by (simp_all add: flaky_def rejects_def expired_def boom_def)
  from execute_fault_contained [of ?i registered flaky 0 Map.empty boom expired, OF h v t(1)]
  show ?thesis using h v t by simp
qed

section \<open>Scope of a cooldown\<close>

text \<open>
  C6. Cooldowns are scoped per (command, caller). A dispatch of command \<open>cmd\<close> for a
  caller changes no registry entry other than the one of that pair, and neither does the
  removal timer it schedules. So the verdict of the cooldown check for any other caller
  on \<open>cmd\<close>, and for any caller (the same one included) on a command with another name, is
  what it was before the dispatch: the invocation throttles nobody else and no other
  command. Commands are told apart by \<^verbatim>\<open>command.data.name\<close>, the registry's key.
\<close>

theorem cooldowns_scoped_per_pair:
  assumes "itype i = ChatInputCommand" and "commands (commandName i) = Some cmd"
  shows "(\<forall>n u. n \<noteq> data_name cmd \<or> u \<noteq> user_id i \<longrightarrow>
            entry (cooldowns (onInteractionCreate commands w now i cds)) n u = entry cds n u) \<and>
         (\<forall>u2 t. u2 \<noteq> user_id i \<longrightarrow>
            fst (cooldownCheck cmd u2 t (cooldowns (onInteractionCreate commands w now i cds)))
              = fst (cooldownCheck cmd u2 t cds)) \<and>
         (\<forall>cmd2 u t. data_name cmd2 \<noteq> data_name cmd \<longrightarrow>
            fst (cooldownCheck cmd2 u t (cooldowns (onInteractionCreate commands w now i cds)))
              = fst (cooldownCheck cmd2 u t cds)) \<and>
         (\<forall>n u c. n \<noteq> data_name cmd \<or> u \<noteq> user_id i \<longrightarrow>
            entry (runCallback (ForgetTimestamp (data_name cmd) (user_id i)) c) n u
              = entry c n u)"
proof (intro conjI allI impI)
  fix n u
  assume "n \<noteq> data_name cmd \<or> u \<noteq> user_id i"
  with assms show "entry (cooldowns (onInteractionCreate commands w now i cds)) n u
                     = entry cds n u"
    by (rule dispatch_frame)
next
  fix u2 t
  assume "u2 \<noteq> user_id i"
  then have "entry (cooldowns (onInteractionCreate commands w now i cds)) (data_name cmd) u2
               = entry cds (data_name cmd) u2"
    using assms by (simp add: dispatch_frame)
  then show "fst (cooldownCheck cmd u2 t (cooldowns (onInteractionCreate commands w now i cds)))
              = fst (cooldownCheck cmd u2 t cds)"
    by (rule verdict_depends_on_entry)
next
  fix cmd2 :: command and u t
  assume "data_name cmd2 \<noteq> data_name cmd"
  then have "entry (cooldowns (onInteractionCreate commands w now i cds)) (data_name cmd2) u
               = entry cds (data_name cmd2) u"
    using assms by (simp add: dispatch_frame)
  then show "fst (cooldownCheck cmd2 u t (cooldowns (onInteractionCreate commands w now i cds)))
              = fst (cooldownCheck cmd2 u t cds)"
    by (rule verdict_depends_on_entry)
next
  fix n u c
  assume "n \<noteq> data_name cmd \<or> u \<noteq> user_id i"
  then show "entry (runCallback (ForgetTimestamp (data_name cmd) (user_id i)) c) n u
              = entry c n u"
    by (auto simp: entry_runCallback simp del: runCallback.simps)
qed

theorem cooldowns_scoped_per_pair_witness:
  "itype (slash ''ping'' ''U1'') = ChatInputCommand \<and>
   registered (commandName (slash ''ping'' ''U1'')) = Some ping \<and>
   ''U2'' \<noteq> user_id (slash ''ping'' ''U1'') \<and>
   data_name flaky \<noteq> data_name ping \<and>
   entry (cooldowns (onInteractionCreate registered calm 0 (slash ''ping'' ''U1'') Map.empty))
     ''ping'' ''U1'' = Some 0 \<and>
   entry (cooldowns (onInteractionCreate registered calm 0 (slash ''ping'' ''U1'') Map.empty))
     ''ping'' ''U2'' = None \<and>
   fst (cooldownCheck ping ''U2'' 1000
          (cooldowns (onInteractionCreate registered calm 0 (slash ''ping'' ''U1'') Map.empty)))
     = Allowed \<and>
   fst (cooldownCheck flaky ''U1'' 1000
          (cooldowns (onInteractionCreate registered calm 0 (slash ''ping'' ''U1'') Map.empty)))
     = Allowed"
proof -
  let ?i = "slash ''ping'' ''U1''"
  let ?r = "onInteractionCreate registered calm 0 ?i Map.empty"
  have h: "itype ?i = ChatInputCommand" "registered (commandName ?i) = Some ping"
    by (simp_all add: slash_def registered_def)
  have n: "''U2'' \<noteq> user_id ?i" "data_name flaky \<noteq> data_name ping"
    "data_name ping = ''ping''"
    by (simp_all add: slash_def flaky_def ping_def)
  note scoped = cooldowns_scoped_per_pair [of ?i registered ping calm 0 Map.empty, OF h]
  have own: "entry (cooldowns ?r) ''ping'' ''U1'' = Some 0"
    using entry_after_allowed [of ?i registered ping 0 Map.empty calm] h
    by (simp add: verdict_cases entry_def ping_def slash_def)
  have e: "entry (cooldowns ?r) ''ping'' ''U2'' = None"
    using scoped n by (simp add: entry_def)
  have a: "fst (cooldownCheck ping ''U2'' 1000 (cooldowns ?r)) = Allowed"
    using scoped n(1) by (simp add: verdict_cases entry_def)
  have b: "fst (cooldownCheck flaky ''U1'' 1000 (cooldowns ?r)) = Allowed"
    using scoped n(2) by (simp add: verdict_cases entry_def)
  show ?thesis using h n own e a b by simp
qed

section \<open>The boundary of the listener's try/catch\<close>

text \<open>
  C8. The claim is that every failure of a call made during a dispatch, the wait-time
  reply of the Throttled branch included, is caught inside the listener. Evaluated on a
  throttled caller whose reply is rejected: the reply is the only effect, nothing is
  logged, and the listener's promise is rejected with the reply's fault, since line 125
  returns the reply's promise without awaiting it inside the \<^verbatim>\<open>try\<close>. A faulting
  execute contract under the same conditions is contained (the promise is fulfilled).
\<close>

theorem throttle_reply_rejection_escapes:
  "fst (cooldownCheck ping ''U1'' 1000 [''ping'' \<mapsto> [''U1'' \<mapsto> 0]]) = Throttled 2 \<and>
   trace (onInteractionCreate registered expired 1000 (slash ''ping'' ''U1'')
            [''ping'' \<mapsto> [''U1'' \<mapsto> 0]])
     = [Reply (ThrottleNotice 2 ''ping'') True] \<and>
   settled (onInteractionCreate registered expired 1000 (slash ''ping'' ''U1'')
              [''ping'' \<mapsto> [''U1'' \<mapsto> 0]])
     = Some boom \<and>
   settled (onInteractionCreate registered expired 0 (slash ''flaky'' ''U1'') Map.empty) = None"
proof -
  let ?i = "slash ''ping'' ''U1''"
  let ?cds = "[''ping'' \<mapsto> [''U1'' \<mapsto> (0::int)]]"
  have h: "itype ?i = ChatInputCommand" "registered (commandName ?i) = Some ping"
    by (simp_all add: slash_def registered_def)
  have e: "entry ?cds (data_name ping) (user_id ?i) = Some 0"
    "(1000::int) < 0 + cooldownAmount ping"
    by (simp_all add: entry_def ping_def slash_def cooldownAmount_def cooldownSeconds_def)
  have r: "onInteractionCreate registered expired 1000 ?i ?cds =
           \<lparr>cooldowns = ?cds, trace = [Reply (ThrottleNotice 2 ''ping'') True],
            settled = Some boom\<rparr>"
    using dispatch_throttled [of ?i registered ping ?cds 0 1000 expired] h e
    by (simp add: ping_def expired_def cooldownAmount_def cooldownSeconds_def)
  have v: "fst (cooldownCheck ping ''U1'' 1000 ?cds) = Throttled 2"
    by (simp add: verdict_cases entry_def ping_def cooldownAmount_def cooldownSeconds_def)
  let ?j = "slash ''flaky'' ''U1''"
  have "settled (onInteractionCreate registered expired 0 ?j Map.empty) = None"
    using dispatch_allowed [of ?j registered flaky Map.empty 0 expired]
    by (simp add: slash_def registered_def entry_def)
  then show ?thesis using r v by simp
qed

section \<open>Unknown commands\<close>

text \<open>
  C9. A chat-input command whose name is not in the command registry is logged with one
  warning and dropped: the warning is the only effect (no reply, no follow-up, no
  execute, no timer), the cooldown registry is returned as it was, and the listener's
  promise is fulfilled.
\<close>

theorem unknown_command_dropped:
  assumes "itype i = ChatInputCommand" and "commands (commandName i) = None"
  shows "onInteractionCreate commands w now i cds =
           \<lparr>cooldowns = cds,
            trace = [LogWarn (''Command not found: '' @ commandName i)],
            settled = None\<rparr>"
  using assms by (simp add: onInteractionCreate_def tryBlock_def)

theorem unknown_command_dropped_witness:
  "itype (slash ''pong'' ''U1'') = ChatInputCommand \<and> registered (commandName (slash ''pong'' ''U1'')) = None \<and>
   onInteractionCreate registered calm 0 (slash ''pong'' ''U1'') Map.empty =
     \<lparr>cooldowns = Map.empty, trace = [LogWarn ''Command not found: pong''], settled = None\<rparr>"
  using unknown_command_dropped [of "slash ''pong'' ''U1''" registered calm 0 Map.empty]
  by (simp add: slash_def registered_def)

section \<open>A failed command keeps its cooldown\<close>

text \<open>
  C10. The claim is that, when the execute contract of a command allowed at time \<open>t\<close>
  faults, the entry recorded at \<open>t\<close> is retained and the caller stays throttled until
  \<open>t\<close> plus the cooldown. The catch block does retain it: after failed invocations of
  \<open>flaky\<close> (cooldown 5 s) at 0 and 5000 ms the entry is 5000, and a next dispatch at
  5500 ms gets the wait-time reply. But when the invocation at 5000 ms is handled before
  the timer of the first invocation (due at 5000 ms) has run, that timer then deletes the
  entry recorded at 5000 ms, and the invocation at 5500 ms is executed, 4.5 s before the
  cooldown of the failed command lapses.
\<close>

theorem failed_command_cooldown_lifted:
  "entry (client_cooldowns (play registered
              [Interaction 0 calm (slash ''flaky'' ''U1''),
               Interaction 5000 calm (slash ''flaky'' ''U1'')] idle)) ''flaky'' ''U1''
     = Some 5000 \<and>
   effects (play registered
              [Interaction 0 calm (slash ''flaky'' ''U1''),
               Interaction 5000 calm (slash ''flaky'' ''U1''),
               Interaction 5500 calm (slash ''flaky'' ''U1'')] idle)
     = [SetTimeout 5000 (ForgetTimestamp ''flaky'' ''U1''), Execute ''flaky'',
        LogError ''Error handling interaction: Error: boom'', Reply ErrorNotice True,
        SetTimeout 5000 (ForgetTimestamp ''flaky'' ''U1''), Execute ''flaky'',
        LogError ''Error handling interaction: Error: boom'', Reply ErrorNotice True,
        Reply (ThrottleNotice (9 / 2) ''flaky'') True] \<and>
   pendingTimers (play registered
              [Interaction 0 calm (slash ''flaky'' ''U1''),
               Interaction 5000 calm (slash ''flaky'' ''U1'')] idle)
     = [(5000, ForgetTimestamp ''flaky'' ''U1''), (10000, ForgetTimestamp ''flaky'' ''U1'')] \<and>
   entry (client_cooldowns (play registered
              [Interaction 0 calm (slash ''flaky'' ''U1''),
               Interaction 5000 calm (slash ''flaky'' ''U1''),
               TimersPhase 5000] idle)) ''flaky'' ''U1''
     = None \<and>
   effects (play registered
              [Interaction 0 calm (slash ''flaky'' ''U1''),
               Interaction 5000 calm (slash ''flaky'' ''U1''),
               TimersPhase 5000,
               Interaction 5500 calm (slash ''flaky'' ''U1'')] idle)
     = [SetTimeout 5000 (ForgetTimestamp ''flaky'' ''U1''), Execute ''flaky'',
        LogError ''Error handling interaction: Error: boom'', Reply ErrorNotice True,
        SetTimeout 5000 (ForgetTimestamp ''flaky'' ''U1''), Execute ''flaky'',
        LogError ''Error handling interaction: Error: boom'', Reply ErrorNotice True,
        SetTimeout 5000 (ForgetTimestamp ''flaky'' ''U1''), Execute ''flaky'',
        LogError ''Error handling interaction: Error: boom'', Reply ErrorNotice True]"
  by (simp add: eval_defs)

section \<open>Two termination signals\<close>

text \<open>
  C4. The claim is that a second termination signal during shutdown is a no-op and the
  teardown (destroying the client, scheduling the status-0 exit) happens once. It fails:
  after SIGINT and SIGTERM on a ready process two exit timers are pending and the
  shutdown lines are logged twice.
\<close>

theorem shutdown_twice_counterexample:
  "written (run [SIGINT, SIGTERM] fresh) =
     [LogInfo ''Bot shutdown initiated (SIGINT)'', LogInfo ''Shutting down gracefully...'',
      ClientDestroy, LogInfo ''Discord client destroyed'', SetTimeout 1500 ShutdownExit,
      LogInfo ''Bot shutdown initiated (SIGTERM)'', LogInfo ''Shutting down gracefully...'',
      SetTimeout 1500 ShutdownExit] \<and>
   filter isTimer (written (run [SIGINT, SIGTERM] fresh))
     = [SetTimeout 1500 ShutdownExit, SetTimeout 1500 ShutdownExit] \<and>
   filter isTimer (written (run [SIGINT] fresh)) = [SetTimeout 1500 ShutdownExit] \<and>
   run [SIGINT, SIGTERM] fresh \<noteq> run [SIGINT] fresh"
proof -
  have w2: "written (run [SIGINT, SIGTERM] fresh) =
     [LogInfo ''Bot shutdown initiated (SIGINT)'', LogInfo ''Shutting down gracefully...'',
      ClientDestroy, LogInfo ''Discord client destroyed'', SetTimeout 1500 ShutdownExit,
      LogInfo ''Bot shutdown initiated (SIGTERM)'', LogInfo ''Shutting down gracefully...'',
      SetTimeout 1500 ShutdownExit]"
    by (simp add: deliver_def onSIGINT_def onSIGTERM_def gracefulShutdown_written
          gracefulShutdown_state fresh_def)
  have w1: "written (run [SIGINT] fresh) =
     [LogInfo ''Bot shutdown initiated (SIGINT)'', LogInfo ''Shutting down gracefully...'',
      ClientDestroy, LogInfo ''Discord client destroyed'', SetTimeout 1500 ShutdownExit]"
    by (simp add: deliver_def onSIGINT_def gracefulShutdown_written fresh_def)
  have "written (run [SIGINT, SIGTERM] fresh) \<noteq> written (run [SIGINT] fresh)"
    unfolding w1 w2 by simp
  then have "run [SIGINT, SIGTERM] fresh \<noteq> run [SIGINT] fresh" by auto
  then show ?thesis unfolding w1 w2 by simp
qed

text \<open>
  C4, as the code has it. \<^verbatim>\<open>gracefulShutdown\<close> has no guard against re-entry: each
  termination signal runs all of it. For two signals (each an interrupt or a terminate)
  delivered to a running process, the client is destroyed once if it was ready (the
  second signal finds it not ready) and not at all otherwise, each signal schedules its
  own status-0 exit after 1500 ms, so two exit timers are added, and the process exits
  with status 0 when the first of them fires, after which the second has no process to
  run in.
\<close>

theorem shutdown_twice:
  assumes "exitStatus p = None"
    and "s1 = SIGINT \<or> s1 = SIGTERM" and "s2 = SIGINT \<or> s2 = SIGTERM"
  shows "filter (\<lambda>e. e = ClientDestroy) (written (run [s1, s2] p))
           = filter (\<lambda>e. e = ClientDestroy) (written p)
             @ (if clientReady p then [ClientDestroy] else []) \<and>
         filter isTimer (written (run [s1, s2] p))
           = filter isTimer (written p)
             @ [SetTimeout 1500 ShutdownExit, SetTimeout 1500 ShutdownExit] \<and>
         exitStatus (run [s1, s2] p) = None \<and>
         exitStatus (run [s1, s2, TimerFires ShutdownExit] p) = Some 0 \<and>
         run [s1, s2, TimerFires ShutdownExit, TimerFires ShutdownExit] p
           = run [s1, s2, TimerFires ShutdownExit] p \<and>
         written (run [s1, s2, TimerFires ShutdownExit] p)
           = written (run [s1, s2] p) @ [LogInfo ''Bot shutdown complete'', Exit 0]"
proof -
  let ?p1 = "handle s1 p"
  let ?p2 = "handle s2 ?p1"
  have e1: "exitStatus ?p1 = None" using assms(1,2) by (simp add: signal_written(4))
  have e2: "exitStatus ?p2 = None" using e1 assms(3) by (simp add: signal_written(4))
  have r2: "run [s1, s2] p = ?p2" using assms(1) e1 by (simp add: deliver_running)
  have r3: "run [s1, s2, TimerFires ShutdownExit] p = fireTimer ShutdownExit ?p2"
    using assms(1) e1 e2 by (simp add: deliver_running)
  have r4: "run [s1, s2, TimerFires ShutdownExit, TimerFires ShutdownExit] p
              = fireTimer ShutdownExit ?p2"
    using assms(1) e1 e2 by (simp add: deliver_running deliver_exited)
  have d: "filter (\<lambda>e. e = ClientDestroy) (written ?p2)
           = filter (\<lambda>e. e = ClientDestroy) (written p)
             @ (if clientReady p then [ClientDestroy] else [])"
    using assms(2,3) by (simp add: signal_written(2) signal_written(3))
  have t: "filter isTimer (written ?p2)
           = filter isTimer (written p)
             @ [SetTimeout 1500 ShutdownExit, SetTimeout 1500 ShutdownExit]"
    using assms(2,3) by (simp add: signal_written(1))
  show ?thesis unfolding r2 r3 r4 using d t e2 by simp
qed

theorem shutdown_twice_witness:
  "exitStatus fresh = None \<and> clientReady fresh \<and>
   filter (\<lambda>e. e = ClientDestroy) (written (run [SIGINT, SIGTERM] fresh)) = [ClientDestroy] \<and>
   filter isTimer (written (run [SIGINT, SIGTERM] fresh))
     = [SetTimeout 1500 ShutdownExit, SetTimeout 1500 ShutdownExit] \<and>
   exitStatus (run [SIGINT, SIGTERM, TimerFires ShutdownExit] fresh) = Some 0 \<and>
   run [SIGINT, SIGTERM, TimerFires ShutdownExit, TimerFires ShutdownExit] fresh
     = run [SIGINT, SIGTERM, TimerFires ShutdownExit] fresh"
proof -
  have h: "exitStatus fresh = None" "clientReady fresh" "written fresh = []"
    by (simp_all add: fresh_def)
  from shutdown_twice [of fresh SIGINT SIGTERM] h show ?thesis by simp
qed

section \<open>Process-level faults\<close>

text \<open>
  C7. The claim is that every process-level fault, an unhandled rejection included, is
  logged, given a fixed delay and then terminates the process with a non-zero status. It
  fails for an unhandled rejection: the handler writes its two lines, schedules nothing,
  and the process is still running.
\<close>

theorem process_faults_counterexample:
  "written (run [UnhandledRejection boom] fresh)
     = [LogError ''Unhandled rejection: Error: boom'',
        ConsoleErrorObj ''Unhandled rejection:'' boom] \<and>
   filter isTimer (written (run [UnhandledRejection boom] fresh)) = [] \<and>
   exitStatus (run [UnhandledRejection boom] fresh) = None"
  by (simp add: deliver_def onUnhandledRejection_def fresh_def boom_def)

text \<open>
  C7, as the code has it. In a running process an uncaught exception is logged with its
  message and its stack and reported on the console, an exit is scheduled after a fixed
  1000 ms, and when that timer fires the process exits with status 1. An unhandled
  rejection is logged and reported on the console only: no exit is scheduled and the
  process keeps running.
\<close>

theorem process_faults:
  assumes "exitStatus p = None"
  shows "written (run [UncaughtException e] p)
           = written p @ [LogError (''Uncaught exception: '' @ message e), LogError (stack e),
                          ConsoleErrorObj ''Uncaught exception:'' e,
                          SetTimeout 1000 CrashExit] \<and>
         exitStatus (run [UncaughtException e] p) = None \<and>
         exitStatus (run [UncaughtException e, TimerFires CrashExit] p) = Some 1 \<and>
         written (run [UnhandledRejection e] p)
           = written p @ [LogError (''Unhandled rejection: '' @ rendering e),
                          ConsoleErrorObj ''Unhandled rejection:'' e] \<and>
         exitStatus (run [UnhandledRejection e] p) = None"
  using assms
  by (simp add: deliver_def onUncaughtException_def onUnhandledRejection_def)

theorem process_faults_witness:
  "exitStatus fresh = None \<and>
   written (run [UncaughtException boom] fresh)
     = [LogError ''Uncaught exception: boom'', LogError ''Error: boom at x'',
        ConsoleErrorObj ''Uncaught exception:'' boom, SetTimeout 1000 CrashExit] \<and>
   exitStatus (run [UncaughtException boom, TimerFires CrashExit] fresh) = Some 1 \<and>
   exitStatus (run [UnhandledRejection boom] fresh) = None"
proof -
  have h: "exitStatus fresh = None" "written fresh = []" "message boom = ''boom''"
    "stack boom = ''Error: boom at x''"
    by (simp_all add: fresh_def boom_def)
  from process_faults [of fresh boom] h show ?thesis by simp
qed

section \<open>Startup validation\<close>

text \<open>
  C5. Startup validation reports exactly the missing required environment values. The
  missing ones are those of DISCORD_TOKEN and CLIENT_ID that are unset or empty. If any
  is missing, what startup writes is one diagnostic: a heading, one line naming each
  missing variable and no other, and a closing line, followed by exit with status 1 and
  with no login attempted. If none is missing, validation writes nothing on the console
  and startup goes on to log in with the configured token.
\<close>

theorem missing_env_vars_reported:
  assumes "exitStatus p = None"
  shows "missingVars (environ s)
           = filter (\<lambda>v. environ s v = None \<or> environ s v = Some [])
               [''DISCORD_TOKEN'', ''CLIENT_ID''] \<and>
         (missingVars (environ s) \<noteq> [] \<longrightarrow>
            since p (init s p)
              = [ConsoleError ''Error: Missing required environment variables:''] @
                map (\<lambda>v. ConsoleError (''- '' @ v)) (missingVars (environ s)) @
                [ConsoleError ''Please add them to your .env file and restart the bot.'',
                 Exit 1] \<and>
            exitStatus (init s p) = Some 1 \<and>
            (\<forall>token. Login token \<notin> set (since p (init s p)))) \<and>
         (missingVars (environ s) = [] \<longrightarrow>
            (\<forall>line. ConsoleError line \<notin> set (since p (init s p))) \<and>
            Login (config_token s) \<in> set (since p (init s p)))"
proof (intro conjI impI)
  show "missingVars (environ s)
           = filter (\<lambda>v. environ s v = None \<or> environ s v = Some [])
               [''DISCORD_TOKEN'', ''CLIENT_ID'']"
    by (simp add: missingVars_cases truthy_iff)
next
  assume m: "missingVars (environ s) \<noteq> []"
  from init_missing(1) [OF assms m]
  show out: "since p (init s p)
              = [ConsoleError ''Error: Missing required environment variables:''] @
                map (\<lambda>v. ConsoleError (''- '' @ v)) (missingVars (environ s)) @
                [ConsoleError ''Please add them to your .env file and restart the bot.'',
                 Exit 1]"
    by (rule since_append)
  show "exitStatus (init s p) = Some 1" using assms m by (rule init_missing(2))
  show "\<forall>token. Login token \<notin> set (since p (init s p))"
    unfolding out by auto
next
  assume m: "missingVars (environ s) = []"
  have out: "since p (init s p) =
           ((case loggerSetup s of
               None \<Rightarrow> [LogInfo ''Logger initialized'']
             | Some error \<Rightarrow> [ConsoleErrorObj ''Failed to initialize logger:'' error]) @
            [LogInfo ''Starting bot...'', Login (config_token s)] @
            (case login_outcome s of
               None \<Rightarrow> []
             | Some error \<Rightarrow> [ConsoleErrorObj ''Failed to initialize bot:'' error,
                                LogError (''Initialization error: '' @ message error),
                                Exit 1]))"
    using init_complete [OF assms m] by (rule since_append)
  show "\<forall>line. ConsoleError line \<notin> set (since p (init s p))"
    unfolding out by (auto split: option.splits)
  show "Login (config_token s) \<in> set (since p (init s p))"
    unfolding out by simp
qed

theorem missing_env_vars_reported_witness:
  "exitStatus fresh = None \<and>
   missingVars (environ onlyClientId) = [''DISCORD_TOKEN''] \<and>
   since fresh (init onlyClientId fresh)
     = [ConsoleError ''Error: Missing required environment variables:'',
        ConsoleError ''- DISCORD_TOKEN'',
        ConsoleError ''Please add them to your .env file and restart the bot.'',
        Exit 1] \<and>
   exitStatus (init onlyClientId fresh) = Some 1 \<and>
   missingVars (environ noneSet) = [''DISCORD_TOKEN'', ''CLIENT_ID''] \<and>
   since fresh (init noneSet fresh)
     = [ConsoleError ''Error: Missing required environment variables:'',
        ConsoleError ''- DISCORD_TOKEN'', ConsoleError ''- CLIENT_ID'',
        ConsoleError ''Please add them to your .env file and restart the bot.'',
        Exit 1] \<and>
   missingVars (environ bothSet) = [] \<and>
   Login ''secret'' \<in> set (since fresh (init bothSet fresh))"
proof -
  have h: "exitStatus fresh = None" by (simp add: fresh_def)
  have m1: "missingVars (environ onlyClientId) = [''DISCORD_TOKEN'']"
    using missing_env_vars_reported [OF h, of onlyClientId] by (simp add: onlyClientId_def)
  have m2: "missingVars (environ noneSet) = [''DISCORD_TOKEN'', ''CLIENT_ID'']"
    using missing_env_vars_reported [OF h, of noneSet] by (simp add: noneSet_def)
  have m3: "missingVars (environ bothSet) = []"
    using missing_env_vars_reported [OF h, of bothSet] by (simp add: bothSet_def)
  have t: "config_token bothSet = ''secret''" by (simp add: bothSet_def)
  show ?thesis
    using h m1 m2 m3 t
      missing_env_vars_reported [OF h, of onlyClientId]
      missing_env_vars_reported [OF h, of noneSet]
      missing_env_vars_reported [OF h, of bothSet]
    by simp
qed

end
